theory Spec2Isabelle
  imports Main "HOL-Library.AList"
begin

section \<open>The stream gateway of server.go\<close>

text \<open>
  A shallow embedding of \<^verbatim>\<open>src/server.go\<close>: the three methods of \<^verbatim>\<open>B2Client\<close>
  (\<^verbatim>\<open>listFiles\<close>, \<^verbatim>\<open>selectRandomFile\<close>, \<^verbatim>\<open>downloadFile\<close>) and the HTTP handler
  \<^verbatim>\<open>stream\<close>. Go strings are byte sequences, and so is \<^typ>\<open>string\<close>. Everything the
  program reaches outside its own process (the bucket, the local file system, the
  environment variables, the random generator) is an explicit argument: the bucket and the
  file system are fields of the record \<open>world\<close>, which every effectful function takes and
  returns.
\<close>

subsection \<open>The functions of package strings that the program calls\<close>

text \<open>
  The program calls \<^verbatim>\<open>strings.Replace(s, old, new, -1)\<close>, \<^verbatim>\<open>strings.Contains\<close> and
  \<^verbatim>\<open>strings.Split\<close> with a one-byte second argument only (\<^verbatim>\<open>" "\<close>, \<^verbatim>\<open>"#"\<close>, \<^verbatim>\<open>"?"\<close>,
  \<^verbatim>\<open>"/"\<close>), so that argument is a \<^typ>\<open>char\<close> here. With \<^verbatim>\<open>n = -1\<close> every occurrence
  is replaced, scanning from the left.
\<close>

fun strings_Replace :: "string \<Rightarrow> char \<Rightarrow> string \<Rightarrow> string" where
  "strings_Replace [] old new = []"
| "strings_Replace (c # s) old new =
     (if c = old then new @ strings_Replace s old new else c # strings_Replace s old new)"

definition strings_Contains :: "string \<Rightarrow> char \<Rightarrow> bool" where
  "strings_Contains s sep = (sep \<in> set s)"

text \<open>\<^verbatim>\<open>strings.Split\<close> of the empty string is the one-element list of the empty string.\<close>

fun strings_Split :: "string \<Rightarrow> char \<Rightarrow> string list" where
  "strings_Split [] sep = [[]]"
| "strings_Split (c # s) sep =
     (if c = sep then [] # strings_Split s sep
      else (case strings_Split s sep of
              [] \<Rightarrow> [[c]]
            | p # ps \<Rightarrow> (c # p) # ps))"

fun strings_Join :: "string list \<Rightarrow> string \<Rightarrow> string" where
  "strings_Join [] sep = []"
| "strings_Join [p] sep = p"
| "strings_Join (p # q # ps) sep = p @ sep @ strings_Join (q # ps) sep"

subsection \<open>The bucket, the file system and the errors\<close>

text \<open>What a call of the S3 client returns when it fails.\<close>

datatype s3_error = NoSuchKey | ServiceFailure

text \<open>
  The body of a \<^verbatim>\<open>GetObject\<close> output is a stream: it delivers its bytes and then ends, at
  the end of the object or with a read error (the connection broke).
\<close>

datatype read_end = EOF | ReadError

datatype body = Body string read_end

record s3_object =
  Key :: string

datatype io_error = ReadFailed | WriteFailed

text \<open>
  The error values of the program. \<open>IndexOutOfRange\<close> stands for the run-time panic of an
  index expression out of range; it is not an \<^verbatim>\<open>error\<close> value of Go.
\<close>

datatype error =
    NoFilesFound
  | ListFailed s3_error
  | GetObjectFailed s3_error
  | CreateDirFailed
  | CreateFileFailed
  | CopyFailed io_error
  | LoadConfigFailed
  | IndexOutOfRange

text \<open>
  The world outside the process.
  \<^item> \<open>objects\<close>: what \<^verbatim>\<open>GetObject\<close> answers for a key; a key with no entry is not in
    the bucket.
  \<^item> \<open>contents\<close>: what \<^verbatim>\<open>ListObjectsV2\<close> answers.
  \<^item> \<open>getCalls\<close>: the keys of the \<^verbatim>\<open>GetObject\<close> calls made so far, oldest first.
  \<^item> \<open>files\<close>: the regular files of the local file system, by path.
  \<^item> \<open>dirs\<close>: the directories \<^verbatim>\<open>os.MkdirAll\<close> was asked for and made.
  \<^item> \<open>mkdirFails\<close>, \<open>createFails\<close>: the paths at which \<^verbatim>\<open>os.MkdirAll\<close> and
    \<^verbatim>\<open>os.Create\<close> fail.
  \<^item> \<open>writeLimit\<close>: for a path, the number of bytes after which writing to it fails
    (no entry: writing never fails).
\<close>

record world =
  objects :: "(string \<times> (s3_error + body)) list"
  contents :: "s3_error + s3_object list"
  getCalls :: "string list"
  files :: "(string \<times> string) list"
  dirs :: "string list"
  mkdirFails :: "string list"
  createFails :: "string list"
  writeLimit :: "(string \<times> nat) list"

definition GetObject :: "world \<Rightarrow> string \<Rightarrow> s3_error + body" where
  "GetObject w key =
     (case map_of (objects w) key of
        None \<Rightarrow> Inl NoSuchKey
      | Some r \<Rightarrow> r)"

text \<open>
  \<^verbatim>\<open>io.Copy(file, output.Body)\<close>: the bytes that reached the file, and the error if any.
  A write error comes first when the file takes fewer bytes than the body delivers;
  otherwise all delivered bytes are written and the copy fails only if the body ended with
  a read error.
\<close>

definition io_Copy :: "nat option \<Rightarrow> body \<Rightarrow> string \<times> io_error option" where
  "io_Copy lim src =
     (case src of Body bytes fin \<Rightarrow>
        (case lim of
           Some n \<Rightarrow>
             if n < length bytes then (take n bytes, Some WriteFailed)
             else (bytes, case fin of EOF \<Rightarrow> None | ReadError \<Rightarrow> Some ReadFailed)
         | None \<Rightarrow> (bytes, case fin of EOF \<Rightarrow> None | ReadError \<Rightarrow> Some ReadFailed)))"

subsection \<open>The methods of B2Client\<close>

text \<open>The loop of \<^verbatim>\<open>listFiles\<close> appends the key of each listed object.\<close>

definition listFiles :: "world \<Rightarrow> error + string list" where
  "listFiles w =
     (case contents w of
        Inl err \<Rightarrow> Inl (ListFailed err)
      | Inr result \<Rightarrow> Inr (foldl (\<lambda>fileNames object. fileNames @ [Key object]) [] result))"

text \<open>
  \<^verbatim>\<open>rand.Intn\<close> is the argument \<open>Intn\<close>: the function from the bound it is called with to
  the number it returns. Its contract is \<open>Intn n < n\<close> for \<open>0 < n\<close>; an index outside the
  slice would panic.
\<close>

definition selectRandomFile :: "(nat \<Rightarrow> nat) \<Rightarrow> string list \<Rightarrow> error + string" where
  "selectRandomFile Intn fileNames =
     (if length fileNames = 0 then Inl NoFilesFound
      else (let randomIndex = Intn (length fileNames)
            in if randomIndex < length fileNames then Inr (fileNames ! randomIndex)
               else Inl IndexOutOfRange))"

definition cacheDir :: "string \<Rightarrow> string" where
  "cacheDir fileName =
     (if strings_Contains fileName CHR ''/''
      then (let parts = strings_Split fileName CHR ''/''
            in ''cache/'' @ strings_Join (take (length parts - 1) parts) ''/'')
      else ''cache'')"

text \<open>
  \<^verbatim>\<open>downloadFile\<close>, statement by statement: the remote call (recorded in \<open>getCalls\<close>), the
  path \<^verbatim>\<open>cache/<fileName>\<close>, the directory, \<^verbatim>\<open>os.MkdirAll\<close>, \<^verbatim>\<open>os.Create\<close> (which
  truncates) and \<^verbatim>\<open>io.Copy\<close>. Every \<^verbatim>\<open>return "", err\<close> of the source is an \<open>Inl\<close>.
\<close>

definition downloadFile :: "string \<Rightarrow> world \<Rightarrow> (error + string) \<times> world" where
  "downloadFile fileName w =
     (let w1 = w\<lparr>getCalls := getCalls w @ [fileName]\<rparr> in
      case GetObject w fileName of
        Inl err \<Rightarrow> (Inl (GetObjectFailed err), w1)
      | Inr output \<Rightarrow>
          (let filePath = ''cache/'' @ fileName;
               dir = cacheDir fileName
           in if dir \<in> set (mkdirFails w1) then (Inl CreateDirFailed, w1)
              else (let w2 = w1\<lparr>dirs := List.insert dir (dirs w1)\<rparr>
                    in if filePath \<in> set (createFails w2) then (Inl CreateFileFailed, w2)
                       else (case io_Copy (map_of (writeLimit w2) filePath) output of
                               (written, Some err) \<Rightarrow>
                                 (Inl (CopyFailed err),
                                  w2\<lparr>files := AList.update filePath written (files w2)\<rparr>)
                             | (written, None) \<Rightarrow>
                                 (Inr filePath,
                                  w2\<lparr>files := AList.update filePath written (files w2)\<rparr>)))))"

subsection \<open>The handler\<close>

text \<open>The environment after \<^verbatim>\<open>godotenv.Load\<close>, and whether the SDK configuration loads.\<close>

record environ =
  KEY_ID :: string
  APPLICATION_KEY :: string
  BUCKET_NAME :: string
  ENDPOINT :: string
  REGION :: string
  loadConfigFails :: bool

text \<open>
  Of the request the handler reads \<^verbatim>\<open>req.URL.Query().Get("file")\<close> and the \<^verbatim>\<open>Range\<close>
  header; both are the empty string when absent.
\<close>

record request =
  query_file :: string
  Range :: string

text \<open>
  The handler ends in one call of package http, which writes the response; \<open>Panicked\<close> is a
  handler that panicked.
\<close>

datatype response =
    http_Error string nat
  | http_Redirect string nat
  | http_ServeFile string
  | Panicked

abbreviation StatusFound :: nat where
  "StatusFound \<equiv> 302"

abbreviation StatusNotFound :: nat where
  "StatusNotFound \<equiv> 404"

abbreviation StatusInternalServerError :: nat where
  "StatusInternalServerError \<equiv> 500"

text \<open>The three replacements of the handler, in the order of the source.\<close>

definition encodedFile :: "string \<Rightarrow> string" where
  "encodedFile randomFile =
     strings_Replace
       (strings_Replace (strings_Replace randomFile CHR '' '' ''%20'') CHR ''#'' ''%23'')
       CHR ''?'' ''%3F''"

text \<open>
  \<^verbatim>\<open>NewB2Client\<close> fails when the SDK configuration does not load. The client it returns
  reaches the bucket of the world, so the methods above take the world and no receiver.
\<close>

record B2Client =
  bucketName :: string

definition NewB2Client ::
  "bool \<Rightarrow> string \<Rightarrow> string \<Rightarrow> string \<Rightarrow> string \<Rightarrow> string \<Rightarrow> error + B2Client" where
  "NewB2Client loadFails endpoint region keyId applicationKey bucket =
     (if loadFails then Inl LoadConfigFailed else Inr \<lparr>bucketName = bucket\<rparr>)"

definition stream :: "environ \<Rightarrow> (nat \<Rightarrow> nat) \<Rightarrow> request \<Rightarrow> world \<Rightarrow> response \<times> world" where
  "stream env Intn req w =
     (let keyId = KEY_ID env;
          applicationKey = APPLICATION_KEY env;
          bucket = BUCKET_NAME env;
          endpoint = ENDPOINT env;
          region = REGION env
      in if keyId = [] \<or> applicationKey = [] \<or> bucket = [] \<or> endpoint = []
         then (http_Error ''Missing required environment variables''
                 StatusInternalServerError, w)
         else (let region = (if region = [] then ''us-east-5'' else region) in
           case NewB2Client (loadConfigFails env) endpoint region keyId applicationKey bucket of
             Inl err \<Rightarrow>
               (http_Error ''Failed to create B2 client'' StatusInternalServerError, w)
           | Inr b2Client \<Rightarrow>
               (let fileName = query_file req in
                if fileName = []
                then (case listFiles w of
                        Inl err \<Rightarrow>
                          (http_Error ''Failed to list files'' StatusInternalServerError, w)
                      | Inr listResult \<Rightarrow>
                          (case selectRandomFile Intn listResult of
                             Inl IndexOutOfRange \<Rightarrow> (Panicked, w)
                           | Inl err \<Rightarrow> (http_Error ''No files available'' StatusNotFound, w)
                           | Inr randomFile \<Rightarrow>
                               (http_Redirect (''/stream?file='' @ encodedFile randomFile)
                                  StatusFound, w)))
                else (case downloadFile fileName w of
                        (Inl err, w') \<Rightarrow>
                          (http_Error ''Failed to download file'' StatusInternalServerError,
                           w')
                      | (Inr filePath, w') \<Rightarrow> (http_ServeFile filePath, w')))))"

subsection \<open>The substitution the redirect is specified by\<close>


subsection \<open>The Location header of the redirect\<close>





subsection \<open>Leaving the cache directory\<close>

text \<open>
  Whether the path \<^verbatim>\<open>cache/<key>\<close> names a file outside \<^verbatim>\<open>cache\<close>: walking the
  segments of the key, a \<^verbatim>\<open>..\<close> at depth 0 climbs out of the cache root. Empty segments
  and \<^verbatim>\<open>.\<close> stay where they are.
\<close>

fun climbs :: "string list \<Rightarrow> nat \<Rightarrow> bool" where
  "climbs [] depth = False"
| "climbs (seg # segs) depth =
     (if seg = ''..'' then (depth = 0 \<or> climbs segs (depth - 1))
      else if seg = ''.'' \<or> seg = [] then climbs segs depth
      else climbs segs (Suc depth))"

definition escapesCache :: "string \<Rightarrow> bool" where
  "escapesCache key = climbs (strings_Split key CHR ''/'') 0"

subsection \<open>Serving the local file\<close>

text \<open>
  The handler hands the response to \<^verbatim>\<open>http.ServeFile\<close> of Go's package net/http, whose
  code is not part of the repository. The definitions of this subsection follow the
  specification's description of range serving (sections 4.4, 7 and 8) for a GET request.
\<close>

text \<open>Modelled from the spec: reading the decimal numbers of a \<^verbatim>\<open>Range\<close> header.\<close>

definition digitVal :: "char \<Rightarrow> nat option" where
  "digitVal c =
     map_of [(CHR ''0'', 0), (CHR ''1'', 1), (CHR ''2'', 2), (CHR ''3'', 3), (CHR ''4'', 4),
             (CHR ''5'', 5), (CHR ''6'', 6), (CHR ''7'', 7), (CHR ''8'', 8), (CHR ''9'', 9)] c"

text \<open>Modelled from the spec: the digits read so far are \<open>acc\<close>; a non-digit is malformed.\<close>

fun atoi :: "nat \<Rightarrow> string \<Rightarrow> nat option" where
  "atoi acc [] = Some acc"
| "atoi acc (c # cs) =
     (case digitVal c of
        None \<Rightarrow> None
      | Some d \<Rightarrow> atoi (10 * acc + d) cs)"

text \<open>Modelled from the spec: a number has at least one digit.\<close>

definition parseDecimal :: "string \<Rightarrow> nat option" where
  "parseDecimal s = (if s = [] then None else atoi 0 s)"

text \<open>Modelled from the spec: writing the decimal numbers of a \<^verbatim>\<open>Content-Range\<close> header.\<close>

fun itoa :: "nat \<Rightarrow> string" where
  "itoa n =
     (if n < 10 then [''0123456789'' ! n]
      else itoa (n div 10) @ [''0123456789'' ! (n mod 10)])"

declare itoa.simps [simp del]

text \<open>
  Modelled from the spec: the single-range forms of section 4.4 of the specification,
  \<^verbatim>\<open>bytes=start-end\<close>, the open-ended \<^verbatim>\<open>bytes=start-\<close> and the suffix \<^verbatim>\<open>bytes=-N\<close>,
  for a resource of \<open>fileSize\<close> bytes. The result is the first byte and the number of bytes
  to send; \<open>None\<close> is a malformed or unsatisfiable header (section 7: \<^verbatim>\<open>RangeError\<close>).
  A range that starts at or after the end of the resource is out of bounds. The
  specification does not say what an end beyond the last byte means; here, as in HTTP, it
  is the last byte.
\<close>

definition parseRange :: "string \<Rightarrow> nat \<Rightarrow> (nat \<times> nat) option" where
  "parseRange header fileSize =
     (if take 6 header \<noteq> ''bytes='' then None
      else (case strings_Split (drop 6 header) CHR ''-'' of
              [startText, endText] \<Rightarrow>
                if startText = []
                then (case parseDecimal endText of
                        None \<Rightarrow> None
                      | Some n \<Rightarrow>
                          if n = 0 \<or> fileSize = 0 then None
                          else Some (fileSize - min n fileSize, min n fileSize))
                else (case parseDecimal startText of
                        None \<Rightarrow> None
                      | Some start \<Rightarrow>
                          if fileSize \<le> start then None
                          else if endText = [] then Some (start, fileSize - start)
                          else (case parseDecimal endText of
                                  None \<Rightarrow> None
                                | Some e \<Rightarrow>
                                    if e < start then None
                                    else Some (start, min e (fileSize - 1) - start + 1)))
            | _ \<Rightarrow> None))"

text \<open>
  Modelled from the spec: the three answers of section 4.4, \<^verbatim>\<open>200 OK\<close> with the full
  body, \<^verbatim>\<open>206 Partial Content\<close> with \<^verbatim>\<open>Content-Range\<close>, \<^verbatim>\<open>Content-Length\<close> and the
  body, and \<^verbatim>\<open>416 Range Not Satisfiable\<close> with \<^verbatim>\<open>Content-Range\<close>.
\<close>

datatype http_answer =
    OK string
  | PartialContent string nat string
  | RangeNotSatisfiable string

text \<open>Modelled from the spec: the status code of an answer.\<close>

fun status :: "http_answer \<Rightarrow> nat" where
  "status (OK payload) = 200"
| "status (PartialContent contentRange contentLength payload) = 206"
| "status (RangeNotSatisfiable contentRange) = 416"

text \<open>
  Modelled from the spec: \<^verbatim>\<open>http.ServeFile\<close> (Go's net/http, not in the repository), on the
  value of the \<^verbatim>\<open>Range\<close> header and the bytes of the local file. No header: \<^verbatim>\<open>200\<close>
  with the full body. A satisfiable single range: \<^verbatim>\<open>206\<close> with
  \<^verbatim>\<open>Content-Range: bytes start-end/size\<close>. Otherwise \<^verbatim>\<open>416\<close> with
  \<^verbatim>\<open>Content-Range: bytes */size\<close>.
\<close>

definition ServeFile :: "string \<Rightarrow> string \<Rightarrow> http_answer" where
  "ServeFile rangeHeader content =
     (if rangeHeader = [] then OK content
      else (case parseRange rangeHeader (length content) of
              None \<Rightarrow> RangeNotSatisfiable (''bytes */'' @ itoa (length content))
            | Some (start, len) \<Rightarrow>
                PartialContent
                  (''bytes '' @ itoa start @ ''-'' @ itoa (start + len - 1) @ ''/'' @
                   itoa (length content))
                  len (take len (drop start content))))"

text \<open>
  Modelled from the spec: what the client is answered when the handler ended in
  \<^verbatim>\<open>http.ServeFile\<close>. The file is read from the world the handler left; \<open>None\<close> when
  the handler ended otherwise, or the file does not exist.
\<close>

definition served :: "request \<Rightarrow> response \<times> world \<Rightarrow> http_answer option" where
  "served req rw =
     (case fst rw of
        http_ServeFile filePath \<Rightarrow>
          map_option (ServeFile (Range req)) (map_of (files (snd rw)) filePath)
      | _ \<Rightarrow> None)"

subsection \<open>Configurations and worlds for the examples\<close>

text \<open>The handler reaches the bucket only with the four required variables set and a client.\<close>

definition configured :: "environ \<Rightarrow> bool" where
  "configured env =
     (KEY_ID env \<noteq> [] \<and> APPLICATION_KEY env \<noteq> [] \<and> BUCKET_NAME env \<noteq> [] \<and>
      ENDPOINT env \<noteq> [] \<and> \<not> loadConfigFails env)"

definition env0 :: environ where
  "env0 = \<lparr>KEY_ID = ''id'', APPLICATION_KEY = ''secret'', BUCKET_NAME = ''radio'',
           ENDPOINT = ''https://s3.example'', REGION = [], loadConfigFails = False\<rparr>"

text \<open>
  A generator for the examples: asked for a number below \<open>n\<close> it answers \<open>d mod n\<close>, which
  meets the contract of \<^verbatim>\<open>rand.Intn\<close>, and is \<open>d\<close> itself when \<open>d < n\<close>.
\<close>

definition fixedIntn :: "nat \<Rightarrow> nat \<Rightarrow> nat" where
  "fixedIntn d n = d mod n"

text \<open>
  A bucket with the given answers of \<^verbatim>\<open>GetObject\<close>, listing their keys; no call made yet,
  an empty disk on which nothing fails.
\<close>

definition store :: "(string \<times> (s3_error + body)) list \<Rightarrow> world" where
  "store objs =
     \<lparr>objects = objs, contents = Inr (map (\<lambda>kv. \<lparr>Key = fst kv\<rparr>) objs), getCalls = [],
      files = [], dirs = [], mkdirFails = [], createFails = [], writeLimit = []\<rparr>"

text \<open>The request \<^verbatim>\<open>GET /stream?file=<key>\<close> with the given \<^verbatim>\<open>Range\<close> header.\<close>

definition get :: "string \<Rightarrow> string \<Rightarrow> request" where
  "get key rangeHeader = \<lparr>query_file = key, Range = rangeHeader\<rparr>"

section \<open>Properties\<close>

lemma listFiles_keys:
  "contents w = Inr result \<Longrightarrow> listFiles w = Inr (map Key result)"
proof -
  have "foldl (\<lambda>fileNames object. fileNames @ [Key object]) acc result = acc @ map Key result"
    for acc :: "string list"
    by (induction result arbitrary: acc) simp_all
  from this [of "[]"] show "contents w = Inr result \<Longrightarrow> listFiles w = Inr (map Key result)"
    by (simp add: listFiles_def)
qed

subsection \<open>The handler's two paths\<close>

lemma stream_select:
  "configured env \<Longrightarrow> query_file req = [] \<Longrightarrow>
   stream env Intn req w =
     (case listFiles w of
        Inl err \<Rightarrow> (http_Error ''Failed to list files'' 500, w)
      | Inr listResult \<Rightarrow>
          (case selectRandomFile Intn listResult of
             Inl IndexOutOfRange \<Rightarrow> (Panicked, w)
           | Inl err \<Rightarrow> (http_Error ''No files available'' 404, w)
           | Inr randomFile \<Rightarrow>
               (http_Redirect (''/stream?file='' @ encodedFile randomFile) 302, w)))"
  by (simp add: stream_def configured_def NewB2Client_def Let_def)

lemma stream_download:
  "configured env \<Longrightarrow> query_file req \<noteq> [] \<Longrightarrow>
   stream env Intn req w =
     (case downloadFile (query_file req) w of
        (Inl err, w') \<Rightarrow> (http_Error ''Failed to download file'' 500, w')
      | (Inr filePath, w') \<Rightarrow> (http_ServeFile filePath, w'))"
  by (simp add: stream_def configured_def NewB2Client_def Let_def)

lemma stream_download_world:
  "configured env \<Longrightarrow> query_file req \<noteq> [] \<Longrightarrow>
   snd (stream env Intn req w) = snd (downloadFile (query_file req) w)"
  by (simp add: stream_download split: prod.splits sum.splits)

lemma stream_download_error:
  "configured env \<Longrightarrow> query_file req \<noteq> [] \<Longrightarrow>
   fst (downloadFile (query_file req) w) = Inl e \<Longrightarrow>
   fst (stream env Intn req w) = http_Error ''Failed to download file'' 500"
  by (cases "downloadFile (query_file req) w") (simp add: stream_download)

lemma stream_download_ok:
  "configured env \<Longrightarrow> query_file req \<noteq> [] \<Longrightarrow>
   fst (downloadFile (query_file req) w) = Inr p \<Longrightarrow>
   fst (stream env Intn req w) = http_ServeFile p"
  by (cases "downloadFile (query_file req) w") (simp add: stream_download)

lemma configured_env0: "configured env0"
  by (simp add: configured_def env0_def)

subsection \<open>What downloadFile does to the world\<close>

lemma downloadFile_getCalls: "getCalls (snd (downloadFile key w)) = getCalls w @ [key]"
  by (simp add: downloadFile_def Let_def split: sum.splits prod.splits option.splits)

lemma downloadFile_unchanged:
  "objects (snd (downloadFile key w)) = objects w"
  "contents (snd (downloadFile key w)) = contents w"
  "mkdirFails (snd (downloadFile key w)) = mkdirFails w"
  "createFails (snd (downloadFile key w)) = createFails w"
  "writeLimit (snd (downloadFile key w)) = writeLimit w"
  by (simp_all add: downloadFile_def Let_def split: sum.splits prod.splits option.splits)

text \<open>The result depends on the bucket and on what fails, not on the files or the calls.\<close>

lemma downloadFile_same_answers:
  assumes "objects w' = objects w" and "mkdirFails w' = mkdirFails w"
    and "createFails w' = createFails w" and "writeLimit w' = writeLimit w"
  shows "fst (downloadFile key w') = fst (downloadFile key w)"
  using assms
  by (simp add: downloadFile_def GetObject_def Let_def
      split: sum.splits prod.splits option.splits)

lemma downloadFile_again:
  "fst (downloadFile key (snd (downloadFile key' w))) = fst (downloadFile key w)"
  by (rule downloadFile_same_answers) (simp_all add: downloadFile_unchanged)




lemma downloadFile_success:
  assumes "GetObject w key = Inr (Body bytes EOF)"
    and "cacheDir key \<notin> set (mkdirFails w)"
    and "''cache/'' @ key \<notin> set (createFails w)"
    and "map_of (writeLimit w) (''cache/'' @ key) = None"
  shows "fst (downloadFile key w) = Inr (''cache/'' @ key)"
    and "map_of (files (snd (downloadFile key w))) (''cache/'' @ key) = Some bytes"
  using assms by (simp_all add: downloadFile_def io_Copy_def Let_def update_conv')

text \<open>When \<^verbatim>\<open>io.Copy\<close> fails, and what it has written by then.\<close>

lemma io_Copy_failure:
  "io_Copy lim (Body bytes fin) = (written, Some err) \<longleftrightarrow>
     (\<exists>n. lim = Some n \<and> n < length bytes \<and> written = take n bytes \<and> err = WriteFailed)
     \<or> ((\<forall>n. lim = Some n \<longrightarrow> length bytes \<le> n) \<and> fin = ReadError
          \<and> written = bytes \<and> err = ReadFailed)"
  by (cases lim; cases fin) (auto simp add: io_Copy_def)

lemma downloadFile_copy_failure:
  assumes "GetObject w key = Inr src"
    and "cacheDir key \<notin> set (mkdirFails w)"
    and "''cache/'' @ key \<notin> set (createFails w)"
    and "io_Copy (map_of (writeLimit w) (''cache/'' @ key)) src = (written, Some err)"
  shows "fst (downloadFile key w) = Inl (CopyFailed err)"
    and "map_of (files (snd (downloadFile key w))) (''cache/'' @ key) = Some written"
  using assms by (simp_all add: downloadFile_def Let_def update_conv')

subsection \<open>The encoding of the redirect\<close>









subsection \<open>The random choice\<close>

lemma selectRandomFile_index:
  "d < length fileNames \<Longrightarrow> selectRandomFile (fixedIntn d) fileNames = Inr (fileNames ! d)"
  by (auto simp add: selectRandomFile_def fixedIntn_def)

lemma draws_count:
  "card {d. d < length fileNames \<and> selectRandomFile (fixedIntn d) fileNames = Inr k}
   = count_list fileNames k"
proof -
  have "{d. d < length fileNames \<and> selectRandomFile (fixedIntn d) fileNames = Inr k}
        = {d. d < length fileNames \<and> fileNames ! d = k}"
    by (auto simp add: selectRandomFile_index)
  also have "card \<dots> = length (filter (\<lambda>x. x = k) fileNames)"
    by (simp add: length_filter_conv_card)
  also have "\<dots> = count_list fileNames k"
    by (induction fileNames) simp_all
  finally show ?thesis .
qed

subsection \<open>Range headers on a resource of 1000 bytes\<close>

lemma itoa_examples: "itoa 100 = ''100''" "itoa 199 = ''199''" "itoa 1000 = ''1000''"
  by (simp_all add: itoa.simps)

lemma parseRange_inside: "parseRange ''bytes=100-199'' 1000 = Some (100, 100)"
  by (simp add: parseRange_def parseDecimal_def digitVal_def)

lemma parseRange_outside: "parseRange ''bytes=2000-2100'' 1000 = None"
  by (simp add: parseRange_def parseDecimal_def digitVal_def)

lemma ServeFile_1000:
  assumes "length content = 1000"
  shows "ServeFile ''bytes=100-199'' content
           = PartialContent ''bytes 100-199/1000'' 100 (take 100 (drop 100 content))"
    and "ServeFile ''bytes=2000-2100'' content = RangeNotSatisfiable ''bytes */1000''"
    and "ServeFile [] content = OK content"
  using assms
  by (simp_all add: ServeFile_def parseRange_inside parseRange_outside itoa_examples)

lemma served_download:
  assumes "configured env" and "query_file req \<noteq> []"
    and "GetObject w (query_file req) = Inr (Body content EOF)"
    and "cacheDir (query_file req) \<notin> set (mkdirFails w)"
    and "''cache/'' @ query_file req \<notin> set (createFails w)"
    and "map_of (writeLimit w) (''cache/'' @ query_file req) = None"
  shows "served req (stream env Intn req w) = Some (ServeFile (Range req) content)"
proof -
  note ok = downloadFile_success [OF assms(3-6)]
  have "fst (stream env Intn req w) = http_ServeFile (''cache/'' @ query_file req)"
    using assms(1,2) ok(1) by (rule stream_download_ok)
  moreover have "map_of (files (snd (stream env Intn req w))) (''cache/'' @ query_file req)
      = Some content"
    using ok(2) by (simp add: stream_download_world [OF assms(1,2)])
  ultimately show ?thesis by (simp add: served_def)
qed

subsection \<open>Evaluating the examples\<close>

lemmas run_download =
  downloadFile_def store_def GetObject_def cacheDir_def strings_Contains_def io_Copy_def Let_def

lemmas run_stream =
  stream_def env0_def get_def NewB2Client_def listFiles_def selectRandomFile_def fixedIntn_def
  encodedFile_def Let_def

section \<open>The claims\<close>

subsection \<open>C1: a second resolve of a key\<close>




subsection \<open>C2: keys with path-traversal segments\<close>

text \<open>
  Claim C2, as amended. \<open>downloadFile\<close> neither normalises nor validates the key: for every
  key, also one with \<^verbatim>\<open>..\<close> segments, whose object the bucket returns and for which the
  file operations succeed, the resolve succeeds with the path \<^verbatim>\<open>cache/\<close> followed by the
  key as requested, and the object's bytes are written to that path.
\<close>

theorem C2_key_used_as_path:
  assumes "GetObject w key = Inr (Body bytes EOF)"
    and "cacheDir key \<notin> set (mkdirFails w)"
    and "''cache/'' @ key \<notin> set (createFails w)"
    and "map_of (writeLimit w) (''cache/'' @ key) = None"
  shows "fst (downloadFile key w) = Inr (''cache/'' @ key)
         \<and> map_of (files (snd (downloadFile key w))) (''cache/'' @ key) = Some bytes"
  using downloadFile_success [OF assms] by (rule conjI)

text \<open>The amended claim at the key \<^verbatim>\<open>../secret\<close>.\<close>

theorem C2_key_used_as_path_witness:
  "GetObject (store [(''../secret'', Inr (Body ''abc'' EOF))]) ''../secret''
     = Inr (Body ''abc'' EOF)
   \<and> fst (downloadFile ''../secret'' (store [(''../secret'', Inr (Body ''abc'' EOF))]))
     = Inr ''cache/../secret''
   \<and> map_of (files (snd (downloadFile ''../secret''
        (store [(''../secret'', Inr (Body ''abc'' EOF))])))) ''cache/../secret''
     = Some ''abc''"
proof -
  let ?w = "store [(''../secret'', Inr (Body ''abc'' EOF))]"
  have h1: "GetObject ?w ''../secret'' = Inr (Body ''abc'' EOF)"
    by (simp add: GetObject_def store_def)
  have h2: "cacheDir ''../secret'' \<notin> set (mkdirFails ?w)"
    by (simp add: store_def)
  have h3: "''cache/'' @ ''../secret'' \<notin> set (createFails ?w)"
    by (simp add: store_def)
  have h4: "map_of (writeLimit ?w) (''cache/'' @ ''../secret'') = None"
    by (simp add: store_def)
  from C2_key_used_as_path [OF h1 h2 h3 h4] h1 show ?thesis by simp
qed

text \<open>
  Claim C2 as stated fails: the key \<^verbatim>\<open>../secret\<close> is not rejected, and its bytes are
  written to \<^verbatim>\<open>cache/../secret\<close>, a path that leaves the cache directory.
\<close>

theorem C2_traversal_not_rejected_counterexample:
  "escapesCache ''../secret''
   \<and> fst (downloadFile ''../secret'' (store [(''../secret'', Inr (Body ''abc'' EOF))]))
     = Inr ''cache/../secret''
   \<and> map_of (files (snd (downloadFile ''../secret''
        (store [(''../secret'', Inr (Body ''abc'' EOF))])))) ''cache/../secret''
     = Some ''abc''"
  by (simp add: run_download escapesCache_def)

subsection \<open>C3: a second request after a download error\<close>

text \<open>
  Claim C3, as amended. No failure is remembered: for every key X, if the first resolve of
  X fails, the response is the error 500, and a second request for X makes one new
  \<^verbatim>\<open>GetObject\<close> call; the bucket and the disk answering as before, the second resolve fails
  too and the second response is the error 500 again.
\<close>

theorem C3_failure_is_retried:
  assumes "configured env" and "query_file req \<noteq> []"
    and "fst (downloadFile (query_file req) w) = Inl e"
  shows "fst (stream env Intn req w) = http_Error ''Failed to download file'' 500
         \<and> getCalls (snd (stream env Intn req (snd (stream env Intn req w))))
             = getCalls (snd (stream env Intn req w)) @ [query_file req]
         \<and> fst (stream env Intn req (snd (stream env Intn req w)))
             = http_Error ''Failed to download file'' 500"
proof -
  let ?w1 = "snd (downloadFile (query_file req) w)"
  have w1: "snd (stream env Intn req w) = ?w1"
    using assms(1,2) by (rule stream_download_world)
  have first: "fst (stream env Intn req w) = http_Error ''Failed to download file'' 500"
    using assms by (rule stream_download_error)
  have "fst (downloadFile (query_file req) ?w1) = Inl e"
    using assms(3) by (simp add: downloadFile_again)
  with assms(1,2)
  have second: "fst (stream env Intn req ?w1) = http_Error ''Failed to download file'' 500"
    by (rule stream_download_error)
  have calls: "getCalls (snd (stream env Intn req ?w1)) = getCalls ?w1 @ [query_file req]"
    by (simp add: stream_download_world [OF assms(1,2)] downloadFile_getCalls)
  from first second calls show ?thesis by (simp add: w1)
qed

text \<open>The amended claim at a bucket whose service fails for the key.\<close>

theorem C3_failure_is_retried_witness:
  "configured env0 \<and> query_file (get ''x.mp3'' []) \<noteq> []
   \<and> fst (downloadFile ''x.mp3'' (store [(''x.mp3'', Inl ServiceFailure)]))
       = Inl (GetObjectFailed ServiceFailure)
   \<and> getCalls (snd (stream env0 (fixedIntn 0) (get ''x.mp3'' [])
        (snd (stream env0 (fixedIntn 0) (get ''x.mp3'' [])
           (store [(''x.mp3'', Inl ServiceFailure)])))))
     = getCalls (snd (stream env0 (fixedIntn 0) (get ''x.mp3'' [])
         (store [(''x.mp3'', Inl ServiceFailure)]))) @ [''x.mp3'']
   \<and> fst (stream env0 (fixedIntn 0) (get ''x.mp3'' [])
        (snd (stream env0 (fixedIntn 0) (get ''x.mp3'' [])
           (store [(''x.mp3'', Inl ServiceFailure)]))))
     = http_Error ''Failed to download file'' 500"
proof -
  have h2: "query_file (get ''x.mp3'' []) \<noteq> []"
    by (simp add: get_def)
  have h3: "fst (downloadFile (query_file (get ''x.mp3'' []))
               (store [(''x.mp3'', Inl ServiceFailure)]))
            = Inl (GetObjectFailed ServiceFailure)"
    by (simp add: get_def run_download)
  have q: "query_file (get ''x.mp3'' []) = ''x.mp3''"
    by (simp add: get_def)
  from C3_failure_is_retried [OF configured_env0 h2 h3, of "fixedIntn 0"] h2 h3 configured_env0
  show ?thesis unfolding q by blast
qed

text \<open>
  Claim C3 as stated fails: the first request for \<^verbatim>\<open>x.mp3\<close> ends in a download error, and
  the second request calls the object store again.
\<close>

theorem C3_sticky_failure_counterexample:
  "fst (stream env0 (fixedIntn 0) (get ''x.mp3'' []) (store [(''x.mp3'', Inl ServiceFailure)]))
     = http_Error ''Failed to download file'' 500
   \<and> getCalls (snd (stream env0 (fixedIntn 0) (get ''x.mp3'' [])
        (store [(''x.mp3'', Inl ServiceFailure)])))
     = [''x.mp3'']
   \<and> getCalls (snd (stream env0 (fixedIntn 0) (get ''x.mp3'' [])
        (snd (stream env0 (fixedIntn 0) (get ''x.mp3'' [])
           (store [(''x.mp3'', Inl ServiceFailure)])))))
     = [''x.mp3'', ''x.mp3'']"
  by (simp add: run_stream run_download)

subsection \<open>C4: a download that fails while the bytes are copied\<close>

text \<open>
  Claim C4, as amended. For every key, if the download fails while the remote bytes are
  copied to the local file (the object was returned, the directory and the file were
  created, and \<^verbatim>\<open>io.Copy\<close> fails), \<open>downloadFile\<close> returns the copy error and does not
  remove the file: the file at the path \<^verbatim>\<open>cache/<key>\<close>, the key taken as requested, stays
  and holds exactly the bytes copied before the failure. Those are the first \<open>n\<close> bytes of
  the object when writing failed after \<open>n\<close> bytes, and all the bytes the body delivered
  when reading it broke.
\<close>

theorem C4_partial_file_stays:
  assumes "GetObject w key = Inr (Body bytes fin)"
    and "cacheDir key \<notin> set (mkdirFails w)"
    and "''cache/'' @ key \<notin> set (createFails w)"
    and "io_Copy (map_of (writeLimit w) (''cache/'' @ key)) (Body bytes fin)
           = (written, Some err)"
  shows "fst (downloadFile key w) = Inl (CopyFailed err)
         \<and> map_of (files (snd (downloadFile key w))) (''cache/'' @ key) = Some written
         \<and> ((err = WriteFailed
               \<and> (\<exists>n. map_of (writeLimit w) (''cache/'' @ key) = Some n
                       \<and> n < length bytes \<and> written = take n bytes))
              \<or> (err = ReadFailed \<and> fin = ReadError \<and> written = bytes))"
proof -
  note failed = downloadFile_copy_failure [OF assms]
  have "(err = WriteFailed
           \<and> (\<exists>n. map_of (writeLimit w) (''cache/'' @ key) = Some n
                   \<and> n < length bytes \<and> written = take n bytes))
        \<or> (err = ReadFailed \<and> fin = ReadError \<and> written = bytes)"
    using assms(4) unfolding io_Copy_failure by blast
  with failed show ?thesis by blast
qed

text \<open>The amended claim at an object whose stream breaks after three bytes.\<close>

theorem C4_partial_file_stays_witness:
  "GetObject (store [(''a.mp3'', Inr (Body ''abc'' ReadError))]) ''a.mp3''
     = Inr (Body ''abc'' ReadError)
   \<and> io_Copy (map_of (writeLimit (store [(''a.mp3'', Inr (Body ''abc'' ReadError))]))
                (''cache/'' @ ''a.mp3'')) (Body ''abc'' ReadError)
     = (''abc'', Some ReadFailed)
   \<and> fst (downloadFile ''a.mp3'' (store [(''a.mp3'', Inr (Body ''abc'' ReadError))]))
     = Inl (CopyFailed ReadFailed)
   \<and> map_of (files (snd (downloadFile ''a.mp3''
        (store [(''a.mp3'', Inr (Body ''abc'' ReadError))])))) (''cache/'' @ ''a.mp3'')
     = Some ''abc''"
proof -
  let ?w = "store [(''a.mp3'', Inr (Body ''abc'' ReadError))]"
  have h1: "GetObject ?w ''a.mp3'' = Inr (Body ''abc'' ReadError)"
    by (simp add: GetObject_def store_def)
  have h2: "cacheDir ''a.mp3'' \<notin> set (mkdirFails ?w)"
    by (simp add: store_def)
  have h3: "''cache/'' @ ''a.mp3'' \<notin> set (createFails ?w)"
    by (simp add: store_def)
  have h4: "io_Copy (map_of (writeLimit ?w) (''cache/'' @ ''a.mp3'')) (Body ''abc'' ReadError)
            = (''abc'', Some ReadFailed)"
    by (simp add: store_def io_Copy_def)
  from C4_partial_file_stays [OF h1 h2 h3 h4] h1 h4 show ?thesis by blast
qed

text \<open>
  Claim C4 as stated fails: the stream of \<^verbatim>\<open>a.mp3\<close> breaks after three bytes, the error
  is returned, and the partial file \<^verbatim>\<open>cache/a.mp3\<close> is still there with those bytes.
\<close>

theorem C4_partial_file_removed_counterexample:
  "fst (downloadFile ''a.mp3'' (store [(''a.mp3'', Inr (Body ''abc'' ReadError))]))
     = Inl (CopyFailed ReadFailed)
   \<and> map_of (files (snd (downloadFile ''a.mp3''
        (store [(''a.mp3'', Inr (Body ''abc'' ReadError))])))) ''cache/a.mp3''
     = Some ''abc''"
  by (simp add: run_download)

subsection \<open>C5: the status of a failed download\<close>

text \<open>
  Claim C5, as amended. For every requested key whose resolve fails, the handler answers
  with status 500, whatever the failure: also when the object store reports that the object
  does not exist.
\<close>

theorem C5_download_error_is_500:
  assumes "configured env" and "query_file req \<noteq> []"
    and "fst (downloadFile (query_file req) w) = Inl e"
  shows "fst (stream env Intn req w) = http_Error ''Failed to download file'' 500"
  using assms by (rule stream_download_error)

text \<open>The amended claim at a key that is not in the bucket.\<close>

theorem C5_download_error_is_500_witness:
  "configured env0 \<and> query_file (get ''missing.mp3'' []) \<noteq> []
   \<and> fst (downloadFile (query_file (get ''missing.mp3'' [])) (store []))
       = Inl (GetObjectFailed NoSuchKey)
   \<and> fst (stream env0 (fixedIntn 0) (get ''missing.mp3'' []) (store []))
       = http_Error ''Failed to download file'' 500"
proof -
  have h2: "query_file (get ''missing.mp3'' []) \<noteq> []"
    by (simp add: get_def)
  have h3: "fst (downloadFile (query_file (get ''missing.mp3'' [])) (store []))
            = Inl (GetObjectFailed NoSuchKey)"
    by (simp add: get_def run_download)
  from C5_download_error_is_500 [OF configured_env0 h2 h3, of "fixedIntn 0"]
    configured_env0 h2 h3
  show ?thesis by blast
qed

text \<open>
  Claim C5 as stated fails: the object store answers that \<^verbatim>\<open>missing.mp3\<close> does not exist,
  and the status is 500, not 404.
\<close>

theorem C5_not_found_is_404_counterexample:
  "GetObject (store []) ''missing.mp3'' = Inl NoSuchKey
   \<and> fst (stream env0 (fixedIntn 0) (get ''missing.mp3'' []) (store []))
       = http_Error ''Failed to download file'' 500
   \<and> (500::nat) \<noteq> 404"
  by (simp add: run_stream run_download)

subsection \<open>C6: the key in the redirect and back\<close>

text \<open>
  Claim C6 fails on the code. A \<^verbatim>\<open>%\<close> of the key is not encoded, so the keys
  \<^verbatim>\<open>a%20b\<close> and \<^verbatim>\<open>a b\<close> are redirected to the same URL \<^verbatim>\<open>/stream?file=a%20b\<close>; whatever
  decodes the \<^verbatim>\<open>file\<close> parameter of that URL returns the same key for both, so no decoding
  gives every key back.
\<close>

theorem C6_redirect_collision:
  "fst (stream env0 (fixedIntn 0) (get [] []) (store [(''a%20b'', Inr (Body ''x'' EOF))]))
     = http_Redirect ''/stream?file=a%20b'' 302
   \<and> fst (stream env0 (fixedIntn 0) (get [] []) (store [(''a b'', Inr (Body ''x'' EOF))]))
     = http_Redirect ''/stream?file=a%20b'' 302
   \<and> \<not> (\<exists>decode. \<forall>key. decode (''/stream?file='' @ encodedFile key) = key)"
proof -
  have same: "encodedFile ''a%20b'' = encodedFile ''a b''"
    by (simp add: encodedFile_def)
  have "\<not> (\<exists>decode. \<forall>key. decode (''/stream?file='' @ encodedFile key) = key)"
  proof (rule notI, erule exE)
    fix decode :: "string \<Rightarrow> string"
    assume inverse: "\<forall>key. decode (''/stream?file='' @ encodedFile key) = key"
    from inverse [rule_format, of "''a%20b''"] inverse [rule_format, of "''a b''"] same
    have "''a%20b'' = ''a b''"
      by simp
    then show False by simp
  qed
  moreover
  have "fst (stream env0 (fixedIntn 0) (get [] []) (store [(''a%20b'', Inr (Body ''x'' EOF))]))
      = http_Redirect ''/stream?file=a%20b'' 302"
    by (simp add: run_stream store_def)
  moreover
  have "fst (stream env0 (fixedIntn 0) (get [] []) (store [(''a b'', Inr (Body ''x'' EOF))]))
      = http_Redirect ''/stream?file=a%20b'' 302"
    by (simp add: run_stream store_def)
  ultimately show ?thesis by blast
qed

subsection \<open>C7: an empty bucket\<close>

text \<open>
  Claim C7. For every request to \<^verbatim>\<open>/stream\<close> without a \<^verbatim>\<open>file\<close> parameter that reaches
  the bucket, if the listing is empty, \<open>selectRandomFile\<close> returns the error "no files
  found" and the handler answers 404 and issues no redirect.
\<close>

theorem C7_empty_store_is_404:
  assumes "configured env" and "query_file req = []" and "contents w = Inr []"
  shows "listFiles w = Inr []
         \<and> selectRandomFile Intn [] = Inl NoFilesFound
         \<and> stream env Intn req w = (http_Error ''No files available'' 404, w)
         \<and> (\<forall>url code. fst (stream env Intn req w) \<noteq> http_Redirect url code)"
proof -
  have list: "listFiles w = Inr []"
    using assms(3) by (simp add: listFiles_keys)
  have select: "selectRandomFile Intn [] = Inl NoFilesFound"
    by (simp add: selectRandomFile_def)
  have "stream env Intn req w = (http_Error ''No files available'' 404, w)"
    using assms(1,2) list select by (simp add: stream_select)
  with list select show ?thesis by simp
qed

text \<open>The claim at the empty bucket.\<close>

theorem C7_empty_store_is_404_witness:
  "configured env0 \<and> query_file (get [] []) = [] \<and> contents (store []) = Inr []
   \<and> stream env0 (fixedIntn 0) (get [] []) (store [])
       = (http_Error ''No files available'' 404, store [])"
proof -
  have h2: "query_file (get [] []) = []"
    by (simp add: get_def)
  have h3: "contents (store []) = Inr []"
    by (simp add: store_def)
  from C7_empty_store_is_404 [OF configured_env0 h2 h3, of "fixedIntn 0"] configured_env0 h2 h3
  show ?thesis by blast
qed

subsection \<open>C8: ranges of a resource of 1000 bytes\<close>

text \<open>
  Claim C8, with \<^verbatim>\<open>http.ServeFile\<close> as the specification describes it. For a key whose
  object of 1000 bytes the handler has downloaded to the cache, a request with
  \<^verbatim>\<open>Range: bytes=100-199\<close> is answered 206 with \<^verbatim>\<open>Content-Range: bytes 100-199/1000\<close>
  and the 100 bytes of the object from offset 100; \<^verbatim>\<open>Range: bytes=2000-2100\<close> is answered
  416; no \<^verbatim>\<open>Range\<close> header is answered 200 with all 1000 bytes.
\<close>

theorem C8_range_correctness:
  assumes "configured env" and "key \<noteq> []"
    and "GetObject w key = Inr (Body content EOF)" and "length content = 1000"
    and "cacheDir key \<notin> set (mkdirFails w)"
    and "''cache/'' @ key \<notin> set (createFails w)"
    and "map_of (writeLimit w) (''cache/'' @ key) = None"
  shows "served (get key ''bytes=100-199'') (stream env Intn (get key ''bytes=100-199'') w)
           = Some (PartialContent ''bytes 100-199/1000'' 100 (take 100 (drop 100 content)))
         \<and> status (PartialContent ''bytes 100-199/1000'' 100 (take 100 (drop 100 content))) = 206
         \<and> length (take 100 (drop 100 content)) = 100
         \<and> served (get key ''bytes=2000-2100'') (stream env Intn (get key ''bytes=2000-2100'') w)
           = Some (RangeNotSatisfiable ''bytes */1000'')
         \<and> status (RangeNotSatisfiable ''bytes */1000'') = 416
         \<and> served (get key []) (stream env Intn (get key []) w) = Some (OK content)
         \<and> status (OK content) = 200 \<and> length content = 1000"
proof -
  have serve: "served (get key r) (stream env Intn (get key r) w) = Some (ServeFile r content)"
    for r
    using served_download [of env "get key r" w content Intn] assms
    by (simp add: get_def)
  from serve [of "''bytes=100-199''"] serve [of "''bytes=2000-2100''"] serve [of "[]"]
    ServeFile_1000 [OF assms(4)] assms(4)
  show ?thesis by simp
qed

text \<open>The claim at an object of 1000 bytes.\<close>

theorem C8_range_correctness_witness:
  "configured env0
   \<and> length (replicate 1000 CHR ''x'') = 1000
   \<and> served (get ''a.mp3'' ''bytes=100-199'')
        (stream env0 (fixedIntn 0) (get ''a.mp3'' ''bytes=100-199'')
           (store [(''a.mp3'', Inr (Body (replicate 1000 CHR ''x'') EOF))]))
       = Some (PartialContent ''bytes 100-199/1000'' 100 (replicate 100 CHR ''x''))
   \<and> served (get ''a.mp3'' ''bytes=2000-2100'')
        (stream env0 (fixedIntn 0) (get ''a.mp3'' ''bytes=2000-2100'')
           (store [(''a.mp3'', Inr (Body (replicate 1000 CHR ''x'') EOF))]))
       = Some (RangeNotSatisfiable ''bytes */1000'')
   \<and> served (get ''a.mp3'' [])
        (stream env0 (fixedIntn 0) (get ''a.mp3'' [])
           (store [(''a.mp3'', Inr (Body (replicate 1000 CHR ''x'') EOF))]))
       = Some (OK (replicate 1000 CHR ''x''))"
proof -
  let ?w = "store [(''a.mp3'', Inr (Body (replicate 1000 CHR ''x'') EOF))]"
  have h2: "''a.mp3'' \<noteq> []" by simp
  have h3: "GetObject ?w ''a.mp3'' = Inr (Body (replicate 1000 CHR ''x'') EOF)"
    by (simp add: GetObject_def store_def)
  have h4: "length (replicate 1000 CHR ''x'') = 1000" by simp
  have h5: "cacheDir ''a.mp3'' \<notin> set (mkdirFails ?w)"
    by (simp add: store_def)
  have h6: "''cache/'' @ ''a.mp3'' \<notin> set (createFails ?w)"
    by (simp add: store_def)
  have h7: "map_of (writeLimit ?w) (''cache/'' @ ''a.mp3'') = None"
    by (simp add: store_def)
  from C8_range_correctness [OF configured_env0 h2 h3 h4 h5 h6 h7, of "fixedIntn 0"]
    configured_env0
  show ?thesis by simp
qed

subsection \<open>C9: the random choice\<close>

text \<open>
  Claim C9. For every non-empty list of keys, \<open>selectRandomFile\<close> returns the element at
  the index that \<^verbatim>\<open>rand.Intn\<close> drew for the bound \<open>length fileNames\<close>, an element of the
  list. The draw is used as the index unchanged, so it is uniform over the indices as
  \<^verbatim>\<open>rand.Intn\<close> is: of the \<open>length fileNames\<close> possible draws, a key is returned by as many
  as it has positions in the list. For every index some draw returns that index's key.
\<close>

theorem C9_random_selection:
  assumes "fileNames \<noteq> []"
  shows "(\<forall>Intn. Intn (length fileNames) < length fileNames \<longrightarrow>
            selectRandomFile Intn fileNames = Inr (fileNames ! Intn (length fileNames))
            \<and> fileNames ! Intn (length fileNames) \<in> set fileNames)
         \<and> (\<forall>k. card {d. d < length fileNames
                         \<and> selectRandomFile (fixedIntn d) fileNames = Inr k}
                 = count_list fileNames k)
         \<and> (\<forall>i < length fileNames. \<exists>d < length fileNames.
               selectRandomFile (fixedIntn d) fileNames = Inr (fileNames ! i))"
proof (intro conjI allI impI)
  fix Intn :: "nat \<Rightarrow> nat"
  assume "Intn (length fileNames) < length fileNames"
  then show "selectRandomFile Intn fileNames = Inr (fileNames ! Intn (length fileNames))"
    using assms by (simp add: selectRandomFile_def)
next
  fix Intn :: "nat \<Rightarrow> nat"
  assume "Intn (length fileNames) < length fileNames"
  then show "fileNames ! Intn (length fileNames) \<in> set fileNames"
    by (rule nth_mem)
next
  fix k
  show "card {d. d < length fileNames \<and> selectRandomFile (fixedIntn d) fileNames = Inr k}
        = count_list fileNames k"
    by (rule draws_count)
next
  fix i
  assume "i < length fileNames"
  then show "\<exists>d < length fileNames. selectRandomFile (fixedIntn d) fileNames = Inr (fileNames ! i)"
    using selectRandomFile_index by blast
qed

text \<open>The claim at a list of three keys, one of them listed twice.\<close>

theorem C9_random_selection_witness:
  "[''a.mp3'', ''b.mp3'', ''a.mp3''] \<noteq> []
   \<and> selectRandomFile (fixedIntn 1) [''a.mp3'', ''b.mp3'', ''a.mp3''] = Inr ''b.mp3''
   \<and> card {d. d < length [''a.mp3'', ''b.mp3'', ''a.mp3'']
             \<and> selectRandomFile (fixedIntn d) [''a.mp3'', ''b.mp3'', ''a.mp3''] = Inr ''a.mp3''}
       = 2"
proof -
  have ne: "[''a.mp3'', ''b.mp3'', ''a.mp3''] \<noteq> []" by simp
  note th = C9_random_selection [OF ne]
  have "selectRandomFile (fixedIntn 1) [''a.mp3'', ''b.mp3'', ''a.mp3'']
        = Inr ([''a.mp3'', ''b.mp3'', ''a.mp3'']
                ! fixedIntn 1 (length [''a.mp3'', ''b.mp3'', ''a.mp3'']))"
    using th [THEN conjunct1, rule_format, of "fixedIntn 1"] by (simp add: fixedIntn_def)
  then have one: "selectRandomFile (fixedIntn 1) [''a.mp3'', ''b.mp3'', ''a.mp3''] = Inr ''b.mp3''"
    by (simp add: fixedIntn_def)
  have two: "card {d. d < length [''a.mp3'', ''b.mp3'', ''a.mp3'']
             \<and> selectRandomFile (fixedIntn d) [''a.mp3'', ''b.mp3'', ''a.mp3''] = Inr ''a.mp3''}
       = 2"
    using th [THEN conjunct2, THEN conjunct1, rule_format, of "''a.mp3''"] by simp
  from ne one two show ?thesis by blast
qed

subsection \<open>C10: the encoding is a substitution of three characters\<close>




end
